theory Spec2Isabelle
  imports Complex_Main "HOL-Library.Multiset"
begin

section \<open>JavaScript values\<close>

subsection \<open>Numbers\<close>

text \<open>
  A JavaScript number is an IEEE double. The model keeps the three special values and
  takes every finite double as the real number it denotes, so arithmetic on finite
  values is exact: rounding error, overflow of a finite result and the sign of zero
  are not modelled. The operations below follow the ECMAScript definitions of
  \<^verbatim>\<open>+\<close>, \<^verbatim>\<open>-\<close>, \<^verbatim>\<open>*\<close>, \<^verbatim>\<open>/\<close>, \<^verbatim>\<open><\<close>, \<^verbatim>\<open><=\<close>,
  \<^verbatim>\<open>Math.pow\<close> and \<^verbatim>\<open>Math.round\<close> on these values.
\<close>

datatype jsnum = Fin real | PosInf | NegInf | NaN

fun num_neg :: "jsnum \<Rightarrow> jsnum" where
  "num_neg (Fin x) = Fin (- x)"
| "num_neg PosInf = NegInf"
| "num_neg NegInf = PosInf"
| "num_neg NaN = NaN"

fun num_add :: "jsnum \<Rightarrow> jsnum \<Rightarrow> jsnum" where
  "num_add (Fin x) (Fin y) = Fin (x + y)"
| "num_add NaN _ = NaN"
| "num_add _ NaN = NaN"
| "num_add PosInf NegInf = NaN"
| "num_add NegInf PosInf = NaN"
| "num_add PosInf _ = PosInf"
| "num_add _ PosInf = PosInf"
| "num_add NegInf _ = NegInf"
| "num_add _ NegInf = NegInf"

fun num_mul :: "jsnum \<Rightarrow> jsnum \<Rightarrow> jsnum" where
  "num_mul (Fin x) (Fin y) = Fin (x * y)"
| "num_mul NaN _ = NaN"
| "num_mul _ NaN = NaN"
| "num_mul (Fin x) PosInf = (if x = 0 then NaN else if 0 < x then PosInf else NegInf)"
| "num_mul (Fin x) NegInf = (if x = 0 then NaN else if 0 < x then NegInf else PosInf)"
| "num_mul PosInf (Fin y) = (if y = 0 then NaN else if 0 < y then PosInf else NegInf)"
| "num_mul NegInf (Fin y) = (if y = 0 then NaN else if 0 < y then NegInf else PosInf)"
| "num_mul PosInf PosInf = PosInf"
| "num_mul PosInf NegInf = NegInf"
| "num_mul NegInf PosInf = NegInf"
| "num_mul NegInf NegInf = PosInf"

text \<open>A zero divisor is read as \<^verbatim>\<open>+0\<close>.\<close>

fun num_div :: "jsnum \<Rightarrow> jsnum \<Rightarrow> jsnum" where
  "num_div (Fin x) (Fin y) =
     (if y \<noteq> 0 then Fin (x / y)
      else if x = 0 then NaN else if 0 < x then PosInf else NegInf)"
| "num_div NaN _ = NaN"
| "num_div _ NaN = NaN"
| "num_div (Fin x) PosInf = Fin 0"
| "num_div (Fin x) NegInf = Fin 0"
| "num_div PosInf (Fin y) = (if 0 \<le> y then PosInf else NegInf)"
| "num_div NegInf (Fin y) = (if 0 \<le> y then NegInf else PosInf)"
| "num_div PosInf PosInf = NaN"
| "num_div PosInf NegInf = NaN"
| "num_div NegInf PosInf = NaN"
| "num_div NegInf NegInf = NaN"

text \<open>Every comparison with \<^verbatim>\<open>NaN\<close> is false.\<close>

fun num_less :: "jsnum \<Rightarrow> jsnum \<Rightarrow> bool" where
  "num_less (Fin x) (Fin y) = (x < y)"
| "num_less NaN _ = False"
| "num_less _ NaN = False"
| "num_less _ NegInf = False"
| "num_less NegInf _ = True"
| "num_less PosInf _ = False"
| "num_less _ PosInf = True"

fun num_le :: "jsnum \<Rightarrow> jsnum \<Rightarrow> bool" where
  "num_le (Fin x) (Fin y) = (x \<le> y)"
| "num_le NaN _ = False"
| "num_le _ NaN = False"
| "num_le NegInf _ = True"
| "num_le _ PosInf = True"
| "num_le PosInf _ = False"
| "num_le _ NegInf = False"

text \<open>
  The operators of the source are written with the usual symbols. The classes are the
  syntactic ones only: no algebraic law is assumed for \<^typ>\<open>jsnum\<close>.
\<close>

instantiation jsnum :: "{plus, minus, uminus, times, inverse, ord}"
begin

definition plus_jsnum :: "jsnum \<Rightarrow> jsnum \<Rightarrow> jsnum" where
  "plus_jsnum a b = num_add a b"

definition minus_jsnum :: "jsnum \<Rightarrow> jsnum \<Rightarrow> jsnum" where
  "minus_jsnum a b = num_add a (num_neg b)"

definition uminus_jsnum :: "jsnum \<Rightarrow> jsnum" where
  "uminus_jsnum a = num_neg a"

definition times_jsnum :: "jsnum \<Rightarrow> jsnum \<Rightarrow> jsnum" where
  "times_jsnum a b = num_mul a b"

definition divide_jsnum :: "jsnum \<Rightarrow> jsnum \<Rightarrow> jsnum" where
  "divide_jsnum a b = num_div a b"

definition inverse_jsnum :: "jsnum \<Rightarrow> jsnum" where
  "inverse_jsnum a = num_div (Fin 1) a"

definition less_jsnum :: "jsnum \<Rightarrow> jsnum \<Rightarrow> bool" where
  "less_jsnum a b = num_less a b"

definition less_eq_jsnum :: "jsnum \<Rightarrow> jsnum \<Rightarrow> bool" where
  "less_eq_jsnum a b = num_le a b"

instance ..

end

lemmas num_ops =
  plus_jsnum_def minus_jsnum_def uminus_jsnum_def times_jsnum_def divide_jsnum_def
  less_jsnum_def less_eq_jsnum_def

text \<open>\<^verbatim>\<open>isFinite(x)\<close> on a number.\<close>

fun isFinite :: "jsnum \<Rightarrow> bool" where
  "isFinite (Fin x) = True"
| "isFinite PosInf = False"
| "isFinite NegInf = False"
| "isFinite NaN = False"

text \<open>A number is falsy when it is zero or \<^verbatim>\<open>NaN\<close>.\<close>

fun num_truthy :: "jsnum \<Rightarrow> bool" where
  "num_truthy (Fin x) = (x \<noteq> 0)"
| "num_truthy PosInf = True"
| "num_truthy NegInf = True"
| "num_truthy NaN = False"

text \<open>\<^verbatim>\<open>a || b\<close> on numbers.\<close>

definition num_or :: "jsnum \<Rightarrow> jsnum \<Rightarrow> jsnum" where
  "num_or a b = (if num_truthy a then a else b)"

text \<open>\<^verbatim>\<open>Math.round\<close>: the nearest integer, a tie going up.\<close>

fun num_round :: "jsnum \<Rightarrow> jsnum" where
  "num_round (Fin x) = Fin (of_int \<lfloor>x + 1 / 2\<rfloor>)"
| "num_round PosInf = PosInf"
| "num_round NegInf = NegInf"
| "num_round NaN = NaN"

definition is_integer :: "real \<Rightarrow> bool" where
  "is_integer y \<longleftrightarrow> of_int \<lfloor>y\<rfloor> = y"

definition is_odd_integer :: "real \<Rightarrow> bool" where
  "is_odd_integer y \<longleftrightarrow> is_integer y \<and> odd \<lfloor>y\<rfloor>"

text \<open>
  \<^verbatim>\<open>Math.pow(base, exponent)\<close>, in the order of the cases of ECMAScript's
  \<^verbatim>\<open>Number::exponentiate\<close>.
\<close>

fun num_pow :: "jsnum \<Rightarrow> jsnum \<Rightarrow> jsnum" where
  "num_pow b NaN = NaN"
| "num_pow b (Fin y) =
     (if y = 0 then Fin 1
      else case b of
        NaN \<Rightarrow> NaN
      | PosInf \<Rightarrow> (if 0 < y then PosInf else Fin 0)
      | NegInf \<Rightarrow> (if 0 < y then (if is_odd_integer y then NegInf else PosInf) else Fin 0)
      | Fin x \<Rightarrow>
          (if 0 < x then Fin (x powr y)
           else if x = 0 then (if 0 < y then Fin 0 else PosInf)
           else if is_integer y
             then Fin ((if odd \<lfloor>y\<rfloor> then - 1 else 1) * ((- x) powr y))
           else NaN))"
| "num_pow b PosInf =
     (case b of
        NaN \<Rightarrow> NaN
      | PosInf \<Rightarrow> PosInf
      | NegInf \<Rightarrow> PosInf
      | Fin x \<Rightarrow> (if 1 < \<bar>x\<bar> then PosInf else if \<bar>x\<bar> = 1 then NaN else Fin 0))"
| "num_pow b NegInf =
     (case b of
        NaN \<Rightarrow> NaN
      | PosInf \<Rightarrow> Fin 0
      | NegInf \<Rightarrow> Fin 0
      | Fin x \<Rightarrow> (if 1 < \<bar>x\<bar> then Fin 0 else if \<bar>x\<bar> = 1 then NaN else PosInf))"

subsection \<open>JSON values and coercions\<close>

text \<open>
  Request bodies, dataset rows and completion replies are JSON. An object is the list
  of its own properties in insertion order, with distinct keys. A value of the source
  that may be \<^verbatim>\<open>undefined\<close> is an optional JSON value, \<^const>\<open>None\<close> being
  \<^verbatim>\<open>undefined\<close>.
\<close>

datatype json =
    JNull
  | JBool bool
  | JNum jsnum
  | JStr string
  | JArr "json list"
  | JObj "(string \<times> json) list"

type_synonym jsval = "json option"

fun truthy :: "jsval \<Rightarrow> bool" where
  "truthy None = False"
| "truthy (Some JNull) = False"
| "truthy (Some (JBool b)) = b"
| "truthy (Some (JNum n)) = num_truthy n"
| "truthy (Some (JStr s)) = (s \<noteq> [])"
| "truthy (Some (JArr xs)) = True"
| "truthy (Some (JObj kvs)) = True"

text \<open>\<^verbatim>\<open>a || b\<close> on values.\<close>

definition js_or :: "jsval \<Rightarrow> jsval \<Rightarrow> jsval" where
  "js_or a b = (if truthy a then a else b)"

text \<open>
  \<^verbatim>\<open>Number(v)\<close>. The conversion of a string to a number is the language's
  \<^verbatim>\<open>StringToNumber\<close>, taken as the parameter \<open>sn\<close>. An array or an object is
  converted through its string: an empty array is the empty string, a one-element
  array is its element's string (a number's string converts back to that number), an
  array of two or more elements has a comma in its string and is \<^verbatim>\<open>NaN\<close>, and an
  object is the string \<^verbatim>\<open>[object Object]\<close>.
\<close>

fun ToNumber :: "(string \<Rightarrow> jsnum) \<Rightarrow> json \<Rightarrow> jsnum" where
  "ToNumber sn JNull = Fin 0"
| "ToNumber sn (JBool b) = (if b then Fin 1 else Fin 0)"
| "ToNumber sn (JNum n) = n"
| "ToNumber sn (JStr s) = sn s"
| "ToNumber sn (JArr []) = sn []"
| "ToNumber sn (JArr [JNull]) = sn []"
| "ToNumber sn (JArr [JBool b]) = sn (if b then ''true'' else ''false'')"
| "ToNumber sn (JArr [JNum n]) = n"
| "ToNumber sn (JArr [JStr s]) = sn s"
| "ToNumber sn (JArr [JArr xs]) = ToNumber sn (JArr xs)"
| "ToNumber sn (JArr [JObj kvs]) = sn ''[object Object]''"
| "ToNumber sn (JArr (x # y # zs)) = NaN"
| "ToNumber sn (JObj kvs) = sn ''[object Object]''"

fun Number :: "(string \<Rightarrow> jsnum) \<Rightarrow> jsval \<Rightarrow> jsnum" where
  "Number sn None = NaN"
| "Number sn (Some v) = ToNumber sn v"

text \<open>
  A dataset row is read only through named fields; a field that is absent reads as
  \<^verbatim>\<open>undefined\<close>.
\<close>

type_synonym row = "string \<Rightarrow> jsval"

text \<open>
  The row a JSON value is read as: an object gives its own properties, and a number, a
  string, a boolean or an array has none of the fields the source reads.
\<close>

fun row_of :: "json \<Rightarrow> row" where
  "row_of (JObj kvs) = map_of kvs"
| "row_of v = (\<lambda>k. None)"

text \<open>
  An argument that the source tests with \<^verbatim>\<open>Array.isArray\<close>. \<open>Omitted\<close> is a
  missing argument, which the parameter's default replaces by the empty array.
\<close>

datatype rows_arg = Omitted | NotAnArray | Rows "row list"

subsection \<open>Decimal digits\<close>

definition is_digit :: "char \<Rightarrow> bool" where
  "is_digit c \<longleftrightarrow> c \<in> set ''0123456789''"

definition digit_val :: "char \<Rightarrow> nat" where
  "digit_val c = of_char c - of_char (CHR ''0'')"

text \<open>\<^verbatim>\<open>Number(s)\<close> for a string of decimal digits.\<close>

definition decimal_value :: "string \<Rightarrow> nat" where
  "decimal_value s = foldl (\<lambda>acc c. 10 * acc + digit_val c) 0 s"

subsection \<open>Sorting with a comparator\<close>

text \<open>
  \<^verbatim>\<open>[...xs].sort(cmp)\<close>. The sort of the language is stable, and it moves \<open>x\<close>
  behind \<open>y\<close> only when \<^verbatim>\<open>cmp(x, y) > 0\<close>; a result of \<^verbatim>\<open>NaN\<close> counts as
  \<^verbatim>\<open>0\<close>. With a consistent comparator every conforming engine returns the list
  below. With an inconsistent one (keys that are \<^verbatim>\<open>NaN\<close>, or infinite keys of the
  same sign) the language leaves the order to the engine, and the model fixes
  insertion from the right.
\<close>

fun insert_by :: "('a \<Rightarrow> 'a \<Rightarrow> jsnum) \<Rightarrow> 'a \<Rightarrow> 'a list \<Rightarrow> 'a list" where
  "insert_by cmp x [] = [x]"
| "insert_by cmp x (y # ys) =
     (if Fin 0 < cmp x y then y # insert_by cmp x ys else x # y # ys)"

definition sort_by :: "('a \<Rightarrow> 'a \<Rightarrow> jsnum) \<Rightarrow> 'a list \<Rightarrow> 'a list" where
  "sort_by cmp xs = foldr (insert_by cmp) xs []"

section \<open>Population projection (routes/aiPopulation.js)\<close>

record point =
  year :: jsnum
  projected :: jsnum

text \<open>
  The object \<^verbatim>\<open>computeProjection\<close> returns. \<open>projection_years\<close> is the argument as
  it was passed; \<open>projected_population\<close> is \<^const>\<open>None\<close> for \<^verbatim>\<open>null\<close>.
\<close>

record projection =
  base_year :: jsnum
  projection_years :: json
  annual_growth_rate :: jsnum
  projected_population :: "jsnum option"
  series :: "point list"

text \<open>
  The loop \<^verbatim>\<open>for (let i = 1; i <= projectionYears; i++)\<close>, with the counter, the
  previous value and the array built so far as its state. It does not end when
  \<open>projectionYears\<close> is \<^verbatim>\<open>Infinity\<close>: the result \<^const>\<open>None\<close> is a call that
  never returns.
\<close>

partial_function (option) projectionLoop ::
  "jsnum \<Rightarrow> jsnum \<Rightarrow> jsnum \<Rightarrow> nat \<Rightarrow> jsnum \<Rightarrow> point list \<Rightarrow> point list option" where
  "projectionLoop n baseYear rate i prev projections =
     (if Fin (real i) \<le> n
      then projectionLoop n baseYear rate (i + 1)
             (num_round (prev * (Fin 1 + rate)))
             (projections @
               [\<lparr>year = baseYear + Fin (real i),
                 projected = num_round (prev * (Fin 1 + rate))\<rparr>])
      else Some projections)"

definition census_year_cmp :: "(string \<Rightarrow> jsnum) \<Rightarrow> row \<Rightarrow> row \<Rightarrow> jsnum" where
  "census_year_cmp sn a b = Number sn (a ''census_year'') - Number sn (b ''census_year'')"

text \<open>
  \<^verbatim>\<open>computeProjection(trend = [], projectionYears = 5)\<close>. The outer option is
  \<^const>\<open>None\<close> when the call does not return; the inner one is \<^const>\<open>None\<close> for
  the result \<^verbatim>\<open>null\<close>.
\<close>

definition computeProjection ::
  "(string \<Rightarrow> jsnum) \<Rightarrow> rows_arg \<Rightarrow> jsval \<Rightarrow> projection option option" where
  "computeProjection sn trend projectionYears =
     (let py = (case projectionYears of None \<Rightarrow> JNum (Fin 5) | Some v \<Rightarrow> v) in
      case (case trend of Omitted \<Rightarrow> Rows [] | a \<Rightarrow> a) of
        Omitted \<Rightarrow> Some None
      | NotAnArray \<Rightarrow> Some None
      | Rows rows \<Rightarrow>
          if length rows < 2 then Some None
          else
            let t = sort_by (census_year_cmp sn) rows;
                n = length t;
                first = Number sn (js_or ((t ! 0) ''population'') (Some (JNum (Fin 0))));
                last = Number sn (js_or ((t ! (n - 1)) ''population'') (Some (JNum (Fin 0))));
                yearsSpan =
                  num_or (Number sn ((t ! (n - 1)) ''census_year'')
                            - Number sn ((t ! 0) ''census_year''))
                         (Fin 1);
                annualGrowthRate =
                  (if Fin 0 < first then num_pow (last / first) (Fin 1 / yearsSpan) - Fin 1
                   else Fin 0);
                baseYear = Number sn ((t ! (n - 1)) ''census_year'')
            in (case projectionLoop (ToNumber sn py) baseYear annualGrowthRate 1 last [] of
                  None \<Rightarrow> None
                | Some projections \<Rightarrow>
                    Some (Some
                      \<lparr>base_year = baseYear,
                        projection_years = py,
                        annual_growth_rate = annualGrowthRate,
                        projected_population =
                          (if projections = [] then None
                           else Some (projected (projections ! (length projections - 1)))),
                        series = projections\<rparr>)))"

section \<open>Urban and rural aggregation (routes/aiUrbanRural.js)\<close>

text \<open>
  The string a value has as a property key or as the argument of \<^verbatim>\<open>JSON.parse\<close>: a
  string is itself, and the conversion of any other value is the language's
  \<^verbatim>\<open>ToString\<close>, taken as the parameter \<open>ts\<close>.
\<close>

definition ToString :: "(json \<Rightarrow> string) \<Rightarrow> json \<Rightarrow> string" where
  "ToString ts v = (case v of JStr s \<Rightarrow> s | _ \<Rightarrow> ts v)"

text \<open>
  The literal that replaces a falsy \<^verbatim>\<open>area_type\<close>, the Vietnamese word for
  ``other'', as its UTF-8 bytes.
\<close>

definition other_label :: string where
  "other_label = [CHR ''K'', CHR ''h'', CHR 0xC3, CHR 0xA1, CHR ''c'']"

text \<open>
  \<^verbatim>\<open>groups\<close> is created as \<^verbatim>\<open>{}\<close>, an object that inherits the properties of
  \<^verbatim>\<open>Object.prototype\<close>. These are their names; each of them reads as a function, or
  for \<^verbatim>\<open>__proto__\<close> as the prototype object, so each is truthy.
\<close>

definition inherited_names :: "string list" where
  "inherited_names =
     [''constructor'', ''__defineGetter__'', ''__defineSetter__'', ''hasOwnProperty'',
      ''__lookupGetter__'', ''__lookupSetter__'', ''isPrototypeOf'',
      ''propertyIsEnumerable'', ''toString'', ''valueOf'', ''__proto__'',
      ''toLocaleString'']"

text \<open>A value of \<^verbatim>\<open>groups\<close>, with the fields \<^verbatim>\<open>area_type\<close>, \<^verbatim>\<open>population\<close> and
  \<^verbatim>\<open>household_count\<close>.\<close>

record ur_group =
  g_area_type :: json
  g_population :: jsnum
  g_household_count :: jsnum

text \<open>An element of \<^verbatim>\<open>items\<close>; \<open>item_household_count\<close> is its field
  \<^verbatim>\<open>household_count\<close>.\<close>

record ur_item =
  area_type :: json
  population :: jsnum
  item_household_count :: jsnum
  population_percent :: jsnum
  household_percent :: jsnum

text \<open>The object \<^verbatim>\<open>totals\<close>, with the fields \<^verbatim>\<open>population\<close> and \<^verbatim>\<open>households\<close>.\<close>

record ur_totals =
  total_population :: jsnum
  total_hh :: jsnum

record ur_agg =
  ur_totals :: ur_totals
  items :: "ur_item list"

text \<open>
  The order of \<^verbatim>\<open>Object.values\<close>: the properties whose key is an array index (the
  decimal numeral, without a leading zero, of a number below \<open>2^32 - 1\<close>) in ascending
  order of the index, then the other properties in the order of their creation.
\<close>

definition array_index :: "string \<Rightarrow> nat option" where
  "array_index s =
     (if s \<noteq> [] \<and> (\<forall>c\<in>set s. is_digit c) \<and> (s = ''0'' \<or> hd s \<noteq> CHR ''0'')
         \<and> decimal_value s < 2 ^ 32 - 1
      then Some (decimal_value s) else None)"

definition own_values :: "(string \<times> 'a) list \<Rightarrow> 'a list" where
  "own_values props =
     map snd (sort_key (\<lambda>kv. the (array_index (fst kv)))
                (filter (\<lambda>kv. array_index (fst kv) \<noteq> None) props))
     @ map snd (filter (\<lambda>kv. array_index (fst kv) = None) props)"

text \<open>
  The body of the loop over the rows, on the state of \<^verbatim>\<open>groups\<close> (its own
  properties), \<^verbatim>\<open>totalPop\<close> and \<^verbatim>\<open>totalHH\<close>. \<^verbatim>\<open>groups[key]\<close> is falsy, and the
  group is created, only when \<open>key\<close> is neither an own property nor an inherited
  name. The two additions then go to \<^verbatim>\<open>groups[key]\<close>: to the group of that key, or
  for an inherited name to the inherited object, which leaves \<^verbatim>\<open>groups\<close> as it is.
\<close>

definition ur_step ::
  "(string \<Rightarrow> jsnum) \<Rightarrow> (json \<Rightarrow> string) \<Rightarrow>
   (string \<times> ur_group) list \<times> jsnum \<times> jsnum \<Rightarrow> row \<Rightarrow>
   (string \<times> ur_group) list \<times> jsnum \<times> jsnum" where
  "ur_step sn ts st row =
     (case st of (groups, totalPop, totalHH) \<Rightarrow>
        let keyv = (case js_or (row ''area_type'') (Some (JStr other_label)) of
                      Some v \<Rightarrow> v | None \<Rightarrow> JStr other_label);
            key = ToString ts keyv;
            pop = Number sn (js_or (row ''population'') (Some (JNum (Fin 0))));
            hh = Number sn (js_or (row ''household_count'') (Some (JNum (Fin 0))));
            groups1 =
              (if map_of groups key = None \<and> key \<notin> set inherited_names
               then groups @ [(key, \<lparr>g_area_type = keyv, g_population = Fin 0,
                                      g_household_count = Fin 0\<rparr>)]
               else groups);
            groups2 =
              map (\<lambda>kv. if fst kv = key
                         then (key, (snd kv)\<lparr>g_population := g_population (snd kv) + pop,
                                               g_household_count := g_household_count (snd kv) + hh\<rparr>)
                         else kv) groups1
        in (groups2, totalPop + pop, totalHH + hh))"

text \<open>\<^verbatim>\<open>aggregateUrbanRural(rows)\<close>.\<close>

definition aggregateUrbanRural :: "(string \<Rightarrow> jsnum) \<Rightarrow> (json \<Rightarrow> string) \<Rightarrow> row list \<Rightarrow> ur_agg" where
  "aggregateUrbanRural sn ts rows =
     (case foldl (ur_step sn ts) ([], Fin 0, Fin 0) rows of (groups, totalPop, totalHH) \<Rightarrow>
        \<lparr>ur_totals = \<lparr>total_population = totalPop, total_hh = totalHH\<rparr>,
          items =
            map (\<lambda>g. \<lparr>area_type = g_area_type g,
                       population = g_population g,
                       item_household_count = g_household_count g,
                       population_percent =
                         (if num_truthy totalPop then (g_population g / totalPop) * Fin 100
                          else Fin 0),
                       household_percent =
                         (if num_truthy totalHH then (g_household_count g / totalHH) * Fin 100
                          else Fin 0)\<rparr>)
              (own_values groups)\<rparr>)"

section \<open>Internet access (routes/aiInternet.js)\<close>











section \<open>Year detection (routes/chatbot.js)\<close>

text \<open>
  Texts are strings of bytes (UTF-8). The digits and the other ASCII characters are
  single bytes that occur nowhere inside the encoding of another character, so the
  search below finds what the regular expression finds in the string of the source.
\<close>

text \<open>
  \<^verbatim>\<open>String(text).match(/20\d{2}/)\<close>: the leftmost place where \<^verbatim>\<open>2\<close>, \<^verbatim>\<open>0\<close> and
  two digits follow one another; the result is the matched text.
\<close>

fun match_20dd :: "string \<Rightarrow> string option" where
  "match_20dd (c1 # c2 # c3 # c4 # rest) =
     (if c1 = CHR ''2'' \<and> c2 = CHR ''0'' \<and> is_digit c3 \<and> is_digit c4
      then Some [c1, c2, c3, c4]
      else match_20dd (c2 # c3 # c4 # rest))"
| "match_20dd cs = None"

definition detectYear :: "string \<Rightarrow> jsnum \<Rightarrow> jsnum" where
  "detectYear txt defaultYear =
     (let y = (case match_20dd txt of
                 Some m \<Rightarrow> Fin (real (decimal_value m))
               | None \<Rightarrow> defaultYear)
      in if y < Fin 2000 \<or> Fin 2100 < y then defaultYear else y)"

section \<open>Functions of the specification\<close>

text \<open>
  The value after \<open>k\<close> years of compounding at \<open>rate\<close> from \<open>p\<close>, rounded at each
  step.
\<close>

fun compound :: "jsnum \<Rightarrow> jsnum \<Rightarrow> nat \<Rightarrow> jsnum" where
  "compound rate p 0 = p"
| "compound rate p (Suc k) = num_round (compound rate p k * (Fin 1 + rate))"


text \<open>The real number a finite value denotes.\<close>

fun fin_val :: "jsnum \<Rightarrow> real" where
  "fin_val (Fin x) = x"
| "fin_val PosInf = 0"
| "fin_val NegInf = 0"
| "fin_val NaN = 0"

text \<open>A trend point with a numeric year and a numeric population.\<close>

definition trend_point :: "real \<Rightarrow> real \<Rightarrow> row" where
  "trend_point y p =
     row_of (JObj [(''census_year'', JNum (Fin y)), (''population'', JNum (Fin p))])"

text \<open>An urban or rural row with a string area type and two numeric counts.\<close>

definition area_row :: "string \<Rightarrow> real \<Rightarrow> real \<Rightarrow> row" where
  "area_row a p h =
     row_of (JObj [(''area_type'', JStr a), (''population'', JNum (Fin p)),
                   (''household_count'', JNum (Fin h))])"

text \<open>The key under which a row is grouped.\<close>

definition row_key :: "(json \<Rightarrow> string) \<Rightarrow> row \<Rightarrow> string" where
  "row_key ts row =
     ToString ts (case js_or (row ''area_type'') (Some (JStr other_label)) of
                    Some v \<Rightarrow> v | None \<Rightarrow> JStr other_label)"

text \<open>
  What the loop keeps true on rows with finite populations and keys that are not
  inherited names: the keys of the groups are distinct, and the total is the sum of the
  populations of the groups.
\<close>

definition ur_inv :: "(string \<times> ur_group) list \<times> jsnum \<times> jsnum \<Rightarrow> bool" where
  "ur_inv st \<longleftrightarrow>
     (case st of (groups, totalPop, totalHH) \<Rightarrow>
        distinct (map fst groups) \<and>
        (\<forall>kv\<in>set groups. isFinite (g_population (snd kv))) \<and>
        totalPop = Fin (\<Sum>kv\<leftarrow>groups. fin_val (g_population (snd kv))))"



text \<open>
  At position \<open>i\<close> of the text stand \<^verbatim>\<open>2\<close>, \<^verbatim>\<open>0\<close> and two decimal digits.
\<close>

definition occurs_at :: "string \<Rightarrow> nat \<Rightarrow> bool" where
  "occurs_at msg i \<longleftrightarrow>
     i + 4 \<le> length msg \<and> msg ! i = CHR ''2'' \<and> msg ! (i + 1) = CHR ''0'' \<and>
     is_digit (msg ! (i + 2)) \<and> is_digit (msg ! (i + 3))"

section \<open>Numbers and sorting: auxiliary facts\<close>

lemma isFinite_iff: "isFinite n \<longleftrightarrow> (\<exists>x. n = Fin x)"
  by (cases n) simp_all















section \<open>Properties of the population projection\<close>


lemma compound_1: "compound r p (Suc 0) = num_round (p * (Fin 1 + r))"
  by simp









text \<open>
  C8. A trend that is missing, is not an array, or has fewer than two points gives
  \<^verbatim>\<open>null\<close>: the call returns, and it returns no projection object, whatever the
  number of projection years.
\<close>

theorem computeProjection_short_trend_null:
  "computeProjection sn Omitted py = Some None \<and>
   computeProjection sn NotAnArray py = Some None \<and>
   (length rows < 2 \<longrightarrow> computeProjection sn (Rows rows) py = Some None)"
  by (simp add: computeProjection_def)

theorem computeProjection_short_trend_null_witness:
  "length [trend_point 2019 96000000] < 2 \<and>
   computeProjection (\<lambda>s. NaN) (Rows [trend_point 2019 96000000]) (Some (JNum PosInf))
     = Some None"
  using computeProjection_short_trend_null
    [of "\<lambda>s. NaN" "Some (JNum PosInf)" "[trend_point 2019 96000000]"]
  by simp




section \<open>Properties of the internet-access aggregation\<close>





section \<open>Properties of the trend summary\<close>




section \<open>Properties of the year detection\<close>

lemma occurs_at_Suc: "occurs_at (c # cs) (Suc i) = occurs_at cs i"
  by (simp add: occurs_at_def add.commute)

lemma occurs_at_0:
  "occurs_at (c1 # c2 # c3 # c4 # rest) 0 =
     (c1 = CHR ''2'' \<and> c2 = CHR ''0'' \<and> is_digit c3 \<and> is_digit c4)"
  by (simp add: occurs_at_def eval_nat_numeral)

lemma occurs_at_short: "length msg < 4 \<Longrightarrow> \<not> occurs_at msg i"
  by (simp add: occurs_at_def)

lemma match_20dd_first:
  "occurs_at msg i \<Longrightarrow> (\<forall>j<i. \<not> occurs_at msg j) \<Longrightarrow>
     match_20dd msg = Some [msg ! i, msg ! (i + 1), msg ! (i + 2), msg ! (i + 3)]"
proof (induction msg arbitrary: i rule: match_20dd.induct)
  case (1 c1 c2 c3 c4 rest)
  show ?case
  proof (cases "occurs_at (c1 # c2 # c3 # c4 # rest) 0")
    case True
    with 1(3) have "i = 0" by (cases i) auto
    with True show ?thesis by (simp add: occurs_at_0 eval_nat_numeral)
  next
    case False
    with 1(2) obtain i' where i: "i = Suc i'" by (cases i) auto
    from 1(2) i have o: "occurs_at (c2 # c3 # c4 # rest) i'" by (simp add: occurs_at_Suc)
    have n: "\<forall>j<i'. \<not> occurs_at (c2 # c3 # c4 # rest) j"
      using 1(3) i by (metis occurs_at_Suc Suc_less_eq)
    from False have h: "\<not> (c1 = CHR ''2'' \<and> c2 = CHR ''0'' \<and> is_digit c3 \<and> is_digit c4)"
      by (simp add: occurs_at_0)
    have "match_20dd (c1 # c2 # c3 # c4 # rest) = match_20dd (c2 # c3 # c4 # rest)"
      using h by auto
    also note 1(1)[OF h o n]
    finally show ?thesis by (simp add: i)
  qed
qed (simp_all add: occurs_at_short)

lemma match_20dd_none:
  "(\<forall>i. \<not> occurs_at msg i) \<Longrightarrow> match_20dd msg = None"
proof (induction msg rule: match_20dd.induct)
  case (1 c1 c2 c3 c4 rest)
  from 1(2)[rule_format, of 0] have h: "\<not> (c1 = CHR ''2'' \<and> c2 = CHR ''0'' \<and> is_digit c3 \<and> is_digit c4)"
    by (simp add: occurs_at_0)
  have "\<forall>i. \<not> occurs_at (c2 # c3 # c4 # rest) i"
    using 1(2) by (metis occurs_at_Suc)
  have "match_20dd (c1 # c2 # c3 # c4 # rest) = match_20dd (c2 # c3 # c4 # rest)"
    using h by auto
  also note 1(1)[OF h \<open>\<forall>i. \<not> occurs_at (c2 # c3 # c4 # rest) i\<close>]
  finally show ?case .
qed simp_all

lemma digit_val_le: "is_digit c \<Longrightarrow> digit_val c \<le> 9"
  by (auto simp: is_digit_def digit_val_def)

lemma decimal_20dd:
  "decimal_value [CHR ''2'', CHR ''0'', c, d] = 2000 + 10 * digit_val c + digit_val d"
  by (simp add: decimal_value_def digit_val_def)

text \<open>
  C9, as the code has it. \<^verbatim>\<open>detectYear\<close> returns the number written at the leftmost
  place of the text where \<^verbatim>\<open>2\<close>, \<^verbatim>\<open>0\<close> and two decimal digits follow one another
  (a year from 2000 to 2099), wherever that place is, also inside a longer run of
  digits or after another four-digit number; it returns the default year when the text
  has no such place.
\<close>

theorem detectYear_first_20dd:
  "(\<forall>i. occurs_at msg i \<and> (\<forall>j<i. \<not> occurs_at msg j) \<longrightarrow>
      detectYear msg d = Fin (real (2000 + 10 * digit_val (msg ! (i + 2)) + digit_val (msg ! (i + 3)))) \<and>
      digit_val (msg ! (i + 2)) \<le> 9 \<and> digit_val (msg ! (i + 3)) \<le> 9) \<and>
   ((\<forall>i. \<not> occurs_at msg i) \<longrightarrow> detectYear msg d = d)"
proof (intro conjI allI impI)
  fix i assume a: "occurs_at msg i \<and> (\<forall>j<i. \<not> occurs_at msg j)"
  then have m: "match_20dd msg = Some [msg ! i, msg ! (i + 1), msg ! (i + 2), msg ! (i + 3)]"
    by (intro match_20dd_first) auto
  from a have c: "msg ! i = CHR ''2''" "msg ! (i + 1) = CHR ''0''"
    and dg: "is_digit (msg ! (i + 2))" "is_digit (msg ! (i + 3))"
    by (auto simp: occurs_at_def)
  from dg show "digit_val (msg ! (i + 2)) \<le> 9" "digit_val (msg ! (i + 3)) \<le> 9"
    by (auto dest: digit_val_le)
  then show "detectYear msg d = Fin (real (2000 + 10 * digit_val (msg ! (i + 2)) + digit_val (msg ! (i + 3))))"
    unfolding detectYear_def m c by (simp add: decimal_20dd less_jsnum_def)
next
  assume "\<forall>i. \<not> occurs_at msg i"
  then show "detectYear msg d = d"
    by (simp add: detectYear_def match_20dd_none)
qed

theorem detectYear_first_20dd_witness:
  "occurs_at ''in 12024!'' 4 \<and>
   \<not> occurs_at ''in 12024!'' 0 \<and> \<not> occurs_at ''in 12024!'' 1 \<and>
   \<not> occurs_at ''in 12024!'' 2 \<and> \<not> occurs_at ''in 12024!'' 3 \<and>
   detectYear ''in 12024!'' (Fin 1999) = Fin 2024 \<and>
   (\<forall>i. \<not> occurs_at ''in 1999'' i) \<and>
   detectYear ''in 1999'' (Fin 2024) = Fin 2024"
proof -
  have o: "occurs_at ''in 12024!'' 4"
    and n: "\<not> occurs_at ''in 12024!'' 0" "\<not> occurs_at ''in 12024!'' 1"
      "\<not> occurs_at ''in 12024!'' 2" "\<not> occurs_at ''in 12024!'' 3"
    by (simp_all add: occurs_at_def is_digit_def)
  have b: "\<forall>j<4. \<not> occurs_at ''in 12024!'' j"
    using n by (simp add: eval_nat_numeral All_less_Suc)
  have none: "\<forall>i. \<not> occurs_at ''in 1999'' i"
  proof
    fix i show "\<not> occurs_at ''in 1999'' i"
      by (cases i rule: nat.exhaust[case_product nat.exhaust])
         (auto simp: occurs_at_def is_digit_def nth_Cons split: nat.splits)
  qed
  from detectYear_first_20dd[of "''in 12024!''" "Fin 1999"] o b
  have "detectYear ''in 12024!'' (Fin 1999) =
      Fin (real (2000 + 10 * digit_val (''in 12024!'' ! (4 + 2)) + digit_val (''in 12024!'' ! (4 + 3))))"
    by blast
  then have y: "detectYear ''in 12024!'' (Fin 1999) = Fin 2024"
    by (simp add: digit_val_def)
  from detectYear_first_20dd[of "''in 1999''" "Fin 2024"] none
  have d: "detectYear ''in 1999'' (Fin 2024) = Fin 2024" by blast
  from o n y none d show ?thesis by blast
qed

text \<open>
  Against C9 as stated. The year 2100 lies in the range from 2000 to 2100 and is the
  only four-digit token of the first text, and the default is returned. The first
  four-digit token of the second text is 1999, outside the range, and the later 2030 is
  returned, not the default.
\<close>

theorem detectYear_range_counterexample:
  "detectYear ''2100'' (Fin 2024) = Fin 2024 \<and> Fin 2024 \<noteq> Fin 2100 \<and>
   detectYear ''1999 2030'' (Fin 2024) = Fin 2030 \<and> Fin 2030 \<noteq> Fin 2024"
  by (simp add: detectYear_def is_digit_def less_jsnum_def decimal_value_def digit_val_def)

section \<open>Properties of the urban and rural aggregation\<close>

lemma mset_own_values: "mset (own_values props) = mset (map snd props)"
proof -
  have "mset (own_values props) =
      image_mset snd (filter_mset (\<lambda>kv. array_index (fst kv) \<noteq> None) (mset props))
      + image_mset snd (filter_mset (\<lambda>kv. array_index (fst kv) = None) (mset props))"
    by (simp add: own_values_def)
  also have "\<dots> = image_mset snd (mset props)"
    by (metis (no_types, lifting) image_mset_union multiset_partition union_commute filter_mset_cong)
  finally show ?thesis by simp
qed

lemma sum_list_own_values:
  fixes f :: "'a \<Rightarrow> real"
  shows "sum_list (map f (own_values props)) = sum_list (map f (map snd props))"
proof -
  have "sum_list (map f (own_values props)) = sum_mset (image_mset f (mset (own_values props)))"
    by (metis mset_map sum_mset_sum_list)
  also have "\<dots> = sum_mset (image_mset f (mset (map snd props)))"
    by (simp only: mset_own_values)
  also have "\<dots> = sum_list (map f (map snd props))"
    by (metis mset_map sum_mset_sum_list)
  finally show ?thesis .
qed

lemma set_own_values: "set (own_values props) = snd ` set props"
  using mset_own_values[of props] by (metis set_mset_mset set_map)

lemma sum_update_key:
  fixes p :: real
  assumes "distinct (map fst xs)" "key \<in> fst ` set xs"
    and "\<forall>kv\<in>set xs. isFinite (g_population (snd kv))"
  shows "(\<Sum>kv\<leftarrow>map (\<lambda>kv. if fst kv = key
                         then (key, (snd kv)\<lparr>g_population := g_population (snd kv) + Fin p,
                                               g_household_count := g_household_count (snd kv) + hh\<rparr>)
                         else kv) xs. fin_val (g_population (snd kv)))
         = (\<Sum>kv\<leftarrow>xs. fin_val (g_population (snd kv))) + p"
  using assms
proof (induction xs)
  case Nil
  then show ?case by simp
next
  case (Cons x xs)
  show ?case
  proof (cases "fst x = key")
    case True
    from Cons.prems(1) have "fst x \<notin> fst ` set xs" by simp
    with True have nk: "\<forall>kv\<in>set xs. fst kv \<noteq> key" by (auto simp: image_iff)
    then have same: "map (\<lambda>kv. if fst kv = key
                         then (key, (snd kv)\<lparr>g_population := g_population (snd kv) + Fin p,
                                               g_household_count := g_household_count (snd kv) + hh\<rparr>)
                         else kv) xs = xs"
      by (induction xs) auto
    from Cons.prems(3) obtain a where "g_population (snd x) = Fin a"
      by (auto simp: isFinite_iff)
    with True same show ?thesis by (simp add: plus_jsnum_def)
  next
    case False
    with Cons.prems have "key \<in> fst ` set xs" "distinct (map fst xs)"
      "\<forall>kv\<in>set xs. isFinite (g_population (snd kv))" by auto
    from Cons.IH[OF this(2) this(1) this(3)] False show ?thesis by simp
  qed
qed

lemma ur_step_inv:
  assumes inv: "ur_inv st"
    and key: "row_key ts row \<notin> set inherited_names"
    and fin: "isFinite (Number sn (js_or (row ''population'') (Some (JNum (Fin 0)))))"
  shows "ur_inv (ur_step sn ts st row)"
proof -
  obtain groups totalPop totalHH where st: "st = (groups, totalPop, totalHH)"
    by (cases st) auto
  from fin obtain p where p: "Number sn (js_or (row ''population'') (Some (JNum (Fin 0)))) = Fin p"
    by (auto simp: isFinite_iff)
  define key where "key = row_key ts row"
  define hh where "hh = Number sn (js_or (row ''household_count'') (Some (JNum (Fin 0))))"
  define keyv where "keyv = (case js_or (row ''area_type'') (Some (JStr other_label)) of
                      Some v \<Rightarrow> v | None \<Rightarrow> JStr other_label)"
  define groups1 where "groups1 =
      (if map_of groups key = None
       then groups @ [(key, \<lparr>g_area_type = keyv, g_population = Fin 0, g_household_count = Fin 0\<rparr>)]
       else groups)"
  define upd where "upd = (\<lambda>kv::string \<times> ur_group. if fst kv = key
                         then (key, (snd kv)\<lparr>g_population := g_population (snd kv) + Fin p,
                                               g_household_count := g_household_count (snd kv) + hh\<rparr>)
                         else kv)"
  have step: "ur_step sn ts st row = (map upd groups1, totalPop + Fin p, totalHH + hh)"
    using key
    by (simp add: ur_step_def st Let_def p groups1_def upd_def key_def hh_def keyv_def row_key_def)
  from inv have d: "distinct (map fst groups)"
    and f: "\<forall>kv\<in>set groups. isFinite (g_population (snd kv))"
    and t: "totalPop = Fin (\<Sum>kv\<leftarrow>groups. fin_val (g_population (snd kv)))"
    by (auto simp: ur_inv_def st)
  have d1: "distinct (map fst groups1)"
    using d by (auto simp: groups1_def map_of_eq_None_iff)
  have f1: "\<forall>kv\<in>set groups1. isFinite (g_population (snd kv))"
    using f by (auto simp: groups1_def)
  have k1: "key \<in> fst ` set groups1"
    by (auto simp: groups1_def map_of_eq_None_iff)
  have s1: "(\<Sum>kv\<leftarrow>groups1. fin_val (g_population (snd kv)))
      = (\<Sum>kv\<leftarrow>groups. fin_val (g_population (snd kv)))"
    by (simp add: groups1_def)
  have fst_upd: "map fst (map upd groups1) = map fst groups1"
    by (simp add: upd_def comp_def)
  have d2: "distinct (map fst (map upd groups1))" using d1 by (simp only: fst_upd)
  have f2: "\<forall>kv\<in>set (map upd groups1). isFinite (g_population (snd kv))"
    using f1 by (auto simp: upd_def isFinite_iff plus_jsnum_def)
  have s2: "(\<Sum>kv\<leftarrow>map upd groups1. fin_val (g_population (snd kv)))
      = (\<Sum>kv\<leftarrow>groups. fin_val (g_population (snd kv))) + p"
    unfolding upd_def using sum_update_key[OF d1 k1 f1, where p = p and hh = hh] s1 by simp
  show ?thesis
    unfolding step ur_inv_def using d2 f2 s2 t by (simp add: plus_jsnum_def)
qed

lemma ur_fold_inv:
  assumes "ur_inv st"
    and "\<forall>r\<in>set rows. row_key ts r \<notin> set inherited_names"
    and "\<forall>r\<in>set rows. isFinite (Number sn (js_or (r ''population'') (Some (JNum (Fin 0)))))"
  shows "ur_inv (foldl (ur_step sn ts) st rows)"
  using assms by (induction rows arbitrary: st) (simp_all add: ur_step_inv)

lemma ur_inv_init: "ur_inv ([], Fin 0, Fin 0)"
  by (simp add: ur_inv_def)

text \<open>
  On rows whose populations are finite numbers and whose keys are not inherited names,
  the total is a finite number, the population shares of the groups add up to 100
  when it is not 0, and every share is 0 when it is 0.
\<close>

lemma aggregateUrbanRural_percent_sum:
  assumes keys: "\<forall>r\<in>set rows. row_key ts r \<notin> set inherited_names"
    and fin: "\<forall>r\<in>set rows. isFinite (Number sn (js_or (r ''population'') (Some (JNum (Fin 0)))))"
  shows "\<exists>T. total_population (ur_totals (aggregateUrbanRural sn ts rows)) = Fin T \<and>
     (T \<noteq> 0 \<longrightarrow>
        (\<forall>i\<in>set (items (aggregateUrbanRural sn ts rows)). isFinite (population_percent i)) \<and>
        (\<Sum>i\<leftarrow>items (aggregateUrbanRural sn ts rows). fin_val (population_percent i)) = 100) \<and>
     (T = 0 \<longrightarrow>
        (\<forall>i\<in>set (items (aggregateUrbanRural sn ts rows)). population_percent i = Fin 0))"
proof -
  obtain groups totalPop totalHH where
    st: "foldl (ur_step sn ts) ([], Fin 0, Fin 0) rows = (groups, totalPop, totalHH)"
    by (cases "foldl (ur_step sn ts) ([], Fin 0, Fin 0) rows") auto
  from ur_fold_inv[OF ur_inv_init keys fin] st
  have f: "\<forall>kv\<in>set groups. isFinite (g_population (snd kv))"
    and t: "totalPop = Fin (\<Sum>kv\<leftarrow>groups. fin_val (g_population (snd kv)))"
    by (auto simp: ur_inv_def)
  define T where "T = (\<Sum>kv\<leftarrow>groups. fin_val (g_population (snd kv)))"
  have tot: "total_population (ur_totals (aggregateUrbanRural sn ts rows)) = Fin T"
    by (simp add: aggregateUrbanRural_def st t T_def)
  have pct: "map population_percent (items (aggregateUrbanRural sn ts rows)) =
      map (\<lambda>g. if T \<noteq> 0 then (g_population g / Fin T) * Fin 100 else Fin 0) (own_values groups)"
    by (simp add: aggregateUrbanRural_def st t T_def comp_def)
  have gfin: "isFinite (g_population g)" if "g \<in> set (own_values groups)" for g
    using that f by (auto simp: set_own_values)
  have pv: "(if T \<noteq> 0 then (g_population g / Fin T) * Fin 100 else Fin 0)
      = Fin (if T \<noteq> 0 then fin_val (g_population g) / T * 100 else 0)"
    if "g \<in> set (own_values groups)" for g
    using gfin[OF that] by (auto simp: isFinite_iff num_ops)
  have pct': "map population_percent (items (aggregateUrbanRural sn ts rows)) =
      map (\<lambda>g. Fin (if T \<noteq> 0 then fin_val (g_population g) / T * 100 else 0)) (own_values groups)"
    unfolding pct using pv by (intro map_cong) auto
  have zero: "\<forall>i\<in>set (items (aggregateUrbanRural sn ts rows)). population_percent i = Fin 0"
    if "T = 0"
  proof -
    have "set (map population_percent (items (aggregateUrbanRural sn ts rows))) \<subseteq> {Fin 0}"
      unfolding pct' using that by auto
    then show ?thesis by auto
  qed
  have nz: "(\<forall>i\<in>set (items (aggregateUrbanRural sn ts rows)). isFinite (population_percent i)) \<and>
        (\<Sum>i\<leftarrow>items (aggregateUrbanRural sn ts rows). fin_val (population_percent i)) = 100"
    if "T \<noteq> 0"
  proof
    have "set (map population_percent (items (aggregateUrbanRural sn ts rows))) \<subseteq> range Fin"
      unfolding pct' by auto
    then show "\<forall>i\<in>set (items (aggregateUrbanRural sn ts rows)). isFinite (population_percent i)"
      by (auto simp: isFinite_iff)
    have "(\<Sum>i\<leftarrow>items (aggregateUrbanRural sn ts rows). fin_val (population_percent i))
        = sum_list (map fin_val (map population_percent (items (aggregateUrbanRural sn ts rows))))"
      by (simp add: comp_def)
    also have "\<dots> = sum_list (map (\<lambda>g. fin_val (g_population g) / T * 100) (own_values groups))"
      unfolding pct' using that by (simp add: comp_def)
    also have "\<dots> = sum_list (map (\<lambda>g. fin_val (g_population g) / T * 100) (map snd groups))"
      by (rule sum_list_own_values)
    also have "\<dots> = sum_list (map (\<lambda>kv. (100 / T) * fin_val (g_population (snd kv))) groups)"
      by (simp add: comp_def mult.commute)
    also have "\<dots> = (100 / T) * (\<Sum>kv\<leftarrow>groups. fin_val (g_population (snd kv)))"
      by (rule sum_list_const_mult)
    also have "\<dots> = 100" using that by (simp add: T_def)
    finally show "(\<Sum>i\<leftarrow>items (aggregateUrbanRural sn ts rows). fin_val (population_percent i)) = 100" .
  qed
  from tot zero nz show ?thesis by blast
qed

text \<open>
  C3 fails on the code for a row whose \<^verbatim>\<open>area_type\<close> is the name of an inherited
  property. Of the two rows below, the urban one with 30 people and the one of the area
  type \<^verbatim>\<open>constructor\<close> with 10, the second is counted in the totals and makes no
  group: \<^verbatim>\<open>groups["constructor"]\<close> reads the inherited constructor function, which
  is truthy, so no group is created and the two additions go to that function. The
  total is 40, greater than 0, and the only share is 75, not 100.
\<close>

theorem aggregateUrbanRural_inherited_key:
  "aggregateUrbanRural (\<lambda>s. NaN) (\<lambda>v. [])
       [area_row ''urban'' 30 10, area_row ''constructor'' 10 5] =
     \<lparr>ur_totals = \<lparr>total_population = Fin 40, total_hh = Fin 15\<rparr>,
       items = [\<lparr>area_type = JStr ''urban'', population = Fin 30,
                 item_household_count = Fin 10,
                 population_percent = Fin 75, household_percent = Fin (200 / 3)\<rparr>]\<rparr>"
  by (simp add: aggregateUrbanRural_def ur_step_def Let_def area_row_def js_or_def ToString_def
        inherited_names_def num_ops own_values_def array_index_def is_digit_def)

end
